theory Spec2Isabelle
  imports Main
begin

section \<open>The dbAuth function of the Shepherd API (src/app/api/src/functions/auth.ts)\<close>

text \<open>
  The file configures Redwood's \<open>DbAuthHandler\<close>: four option objects with a callback each
  (forgot password, login, reset password, signup), the cookie attributes and the field
  mapping. The callbacks talk to collaborators that are imported from elsewhere
  (\<open>db\<close>, \<open>generateAPIKey\<close>, the email and subscription services, the PostHog client).
  A collaborator is a parameter of the model, and a callback returns, besides its value,
  the list of the calls it issued, in order.
\<close>

subsection \<open>Environment and identifiers\<close>

text \<open>\<open>process.env.NODE_ENV\<close>: a string, or undefined (\<open>None\<close>).\<close>

record env =
  NODE_ENV :: "string option"

text \<open>
  A database identifier is a number or a string, as the schema decides; a template literal
  renders it with \<open>String(id)\<close>, decimal digits for a number.
\<close>

datatype ident = IdNumber int | IdString string

fun nat_digits :: "nat \<Rightarrow> string" where
  "nat_digits n =
     (if n < 10 then [''0123456789'' ! n]
      else nat_digits (n div 10) @ [''0123456789'' ! (n mod 10)])"

declare nat_digits.simps [simp del]

fun toString :: "ident \<Rightarrow> string" where
  "toString (IdString s) = s"
| "toString (IdNumber i) = (if i < 0 then CHR ''-'' # nat_digits (nat (- i)) else nat_digits (nat i))"

subsection \<open>Data passed to and returned by the collaborators\<close>

text \<open>\<open>interface UserAttributes { name: string; plan?: string }\<close>\<close>

record UserAttributes =
  name :: string
  plan :: "string option"

text \<open>The argument of the signup callback: \<open>{ username, hashedPassword, salt, userAttributes }\<close>.\<close>

record signup_args =
  username :: string
  arg_hashedPassword :: string
  arg_salt :: string
  userAttributes :: "UserAttributes option"

text \<open>\<open>db.account.create({ data: { apiKey } })\<close> and the account it resolves to.\<close>

record account_data =
  apiKey :: string

record account = account_data +
  account_id :: ident

text \<open>
  \<open>db.user.create({ data: { email, hashedPassword, salt, name, type, accountId } })\<close> and the
  user it resolves to. The callbacks read \<open>id\<close> and \<open>email\<close> of a user and nothing else.
\<close>

record user_data =
  email :: string
  hashedPassword :: string
  salt :: string
  user_name :: "string option"
  user_type :: string
  accountId :: ident

record user = user_data +
  user_id :: ident

record email_input =
  to :: string
  subject :: string

record reset_email_input = email_input +
  resetLink :: string

record subscription_input =
  status :: string
  subscription_type :: string
  userId :: ident

text \<open>
  The PostHog message
  \<open>{ distinctId, event, properties: { $set: { email, name, plan } }, groups: { account } }\<close>.
\<close>

record capture_message =
  distinctId :: string
  event :: string
  set_email :: string
  set_name :: "string option"
  set_plan :: string
  groups_account :: ident

subsection \<open>Promises, collaborators and runs\<close>

text \<open>
  A promise, by its outcome. \<open>await\<close> continues with the value of a fulfilled promise and
  rejects the enclosing async function with the reason of a rejected one. A promise that is
  not awaited is left floating: nothing reads its outcome.
\<close>

datatype 'a promise = Fulfilled 'a | Rejected string

text \<open>
  The collaborators, as the responses they give to a request. \<open>db.user.create\<close> resolves to
  a user or to a falsy value (\<open>None\<close>), which the signup callback tests.
  The email, subscription and analytics services answer with a promise: the callbacks call
  them as statements, without \<open>await\<close>, and go on whatever the outcome will be.
\<close>

record world =
  generateAPIKey :: "nat \<Rightarrow> string"
  db_account_create :: "account_data \<Rightarrow> account promise"
  db_user_create :: "user_data \<Rightarrow> user option promise"
  sendWelcomeEmail :: "email_input \<Rightarrow> unit promise"
  createSubscription :: "subscription_input \<Rightarrow> unit promise"
  phDefaultClient_capture :: "capture_message \<Rightarrow> unit promise"
  sendResetEmail :: "reset_email_input \<Rightarrow> unit promise"

datatype call =
    AccountCreate account_data
  | UserCreate user_data
  | SendWelcomeEmail email_input
  | CreateSubscription subscription_input
  | Capture capture_message
  | SendResetEmail reset_email_input

text \<open>
  What a callback did: the calls it issued, in order; the promises it left floating, in
  order; and the value it returned.
\<close>

record 'a run =
  calls :: "call list"
  floating :: "unit promise list"
  returned :: 'a

subsection \<open>forgotPassword\<close>



definition forgotPassword_expires :: nat where
  "forgotPassword_expires = 60 * 60 * 24"

definition forgotPassword_errors :: "(string \<times> string) list" where
  "forgotPassword_errors =
     [(''usernameNotFound'', ''Username not found''),
      (''usernameRequired'', ''Username is required'')]"

subsection \<open>login\<close>

definition login_handler :: "user \<Rightarrow> user" where
  "login_handler u = u"

definition login_errors :: "(string \<times> string) list" where
  "login_errors =
     [(''usernameOrPasswordMissing'', ''Both username and password are required''),
      (''usernameNotFound'', ''Username ${username} not found''),
      (''incorrectPassword'', ''Incorrect password for ${username}'')]"

definition login_expires :: nat where
  "login_expires = 60 * 60 * 24 * 365 * 10"

subsection \<open>resetPassword\<close>

definition resetPassword_handler :: "user \<Rightarrow> bool" where
  "resetPassword_handler u = True"

definition resetPassword_allowReusedPassword :: bool where
  "resetPassword_allowReusedPassword = True"

definition resetPassword_errors :: "(string \<times> string) list" where
  "resetPassword_errors =
     [(''resetTokenExpired'', ''resetToken is expired''),
      (''resetTokenInvalid'', ''resetToken is invalid''),
      (''resetTokenRequired'', ''resetToken is required''),
      (''reusedPassword'', ''Must choose a new password'')]"

subsection \<open>signup\<close>

definition userPlan :: "env \<Rightarrow> string" where
  "userPlan e = (if NODE_ENV e = Some ''development'' then ''Alpha-USD-Monthly''
                 else ''alpha-usd-monthly'')"

definition signup_handler :: "env \<Rightarrow> world \<Rightarrow> signup_args \<Rightarrow> user option promise run" where
  "signup_handler e w a =
     (let new_account_data = \<lparr>apiKey = generateAPIKey w 32\<rparr> in
      case db_account_create w new_account_data of
        Rejected err \<Rightarrow>
          \<lparr>calls = [AccountCreate new_account_data], floating = [], returned = Rejected err\<rparr>
      | Fulfilled newAccount \<Rightarrow>
         (let new_user_data =
                \<lparr>email = username a,
                 hashedPassword = arg_hashedPassword a,
                 salt = arg_salt a,
                 user_name = map_option name (userAttributes a),
                 user_type = ''OWNER'',
                 accountId = account_id newAccount\<rparr>
          in
          case db_user_create w new_user_data of
            Rejected err \<Rightarrow>
              \<lparr>calls = [AccountCreate new_account_data, UserCreate new_user_data],
               floating = [], returned = Rejected err\<rparr>
          | Fulfilled None \<Rightarrow>
              \<lparr>calls = [AccountCreate new_account_data, UserCreate new_user_data],
               floating = [], returned = Fulfilled None\<rparr>
          | Fulfilled (Some newUser) \<Rightarrow>
             (let welcome = \<lparr>to = username a, subject = ''Welcome to Shepherd Pro''\<rparr>;
                  subscription = \<lparr>status = ''IN_TRIAL'', subscription_type = userPlan e,
                                  userId = user_id newUser\<rparr>;
                  message = \<lparr>distinctId = ''shepherd-user-'' @ toString (user_id newUser),
                             event = ''Shepherd Signup'',
                             set_email = username a,
                             set_name = map_option name (userAttributes a),
                             set_plan = userPlan e,
                             groups_account = account_id newAccount\<rparr>
              in \<lparr>calls = [AccountCreate new_account_data, UserCreate new_user_data,
                           SendWelcomeEmail welcome, CreateSubscription subscription,
                           Capture message],
                  floating = [sendWelcomeEmail w welcome, createSubscription w subscription,
                              phDefaultClient_capture w message],
                  returned = Fulfilled (Some newUser)\<rparr>)))"

text \<open>
  The signup callback once more, with the three services as calls that either return or
  throw. The callback has no \<open>try\<close>: a call that throws ends the async function there, which
  rejects with what was thrown, and the calls after it are not made. A service that returns
  hands back its promise, which is left floating as before. (For the two awaited database
  calls a throw and a rejected promise end the callback alike, so \<open>Rejected\<close> stands for
  both.)
\<close>

datatype 'a outcome = Returns 'a | Throws string

record side_effects =
  sendWelcomeEmail_call :: "email_input \<Rightarrow> unit promise outcome"
  createSubscription_call :: "subscription_input \<Rightarrow> unit promise outcome"
  phDefaultClient_capture_call :: "capture_message \<Rightarrow> unit promise outcome"

definition signup_handler_throwing ::
    "env \<Rightarrow> world \<Rightarrow> side_effects \<Rightarrow> signup_args \<Rightarrow> user option promise run" where
  "signup_handler_throwing e w s a =
     (let new_account_data = \<lparr>apiKey = generateAPIKey w 32\<rparr> in
      case db_account_create w new_account_data of
        Rejected err \<Rightarrow>
          \<lparr>calls = [AccountCreate new_account_data], floating = [], returned = Rejected err\<rparr>
      | Fulfilled newAccount \<Rightarrow>
         (let new_user_data =
                \<lparr>email = username a,
                 hashedPassword = arg_hashedPassword a,
                 salt = arg_salt a,
                 user_name = map_option name (userAttributes a),
                 user_type = ''OWNER'',
                 accountId = account_id newAccount\<rparr>
          in
          case db_user_create w new_user_data of
            Rejected err \<Rightarrow>
              \<lparr>calls = [AccountCreate new_account_data, UserCreate new_user_data],
               floating = [], returned = Rejected err\<rparr>
          | Fulfilled None \<Rightarrow>
              \<lparr>calls = [AccountCreate new_account_data, UserCreate new_user_data],
               floating = [], returned = Fulfilled None\<rparr>
          | Fulfilled (Some newUser) \<Rightarrow>
             (let welcome = \<lparr>to = username a, subject = ''Welcome to Shepherd Pro''\<rparr>;
                  subscription = \<lparr>status = ''IN_TRIAL'', subscription_type = userPlan e,
                                  userId = user_id newUser\<rparr>;
                  message = \<lparr>distinctId = ''shepherd-user-'' @ toString (user_id newUser),
                             event = ''Shepherd Signup'',
                             set_email = username a,
                             set_name = map_option name (userAttributes a),
                             set_plan = userPlan e,
                             groups_account = account_id newAccount\<rparr>
              in
              case sendWelcomeEmail_call s welcome of
                Throws err \<Rightarrow>
                  \<lparr>calls = [AccountCreate new_account_data, UserCreate new_user_data,
                            SendWelcomeEmail welcome],
                   floating = [], returned = Rejected err\<rparr>
              | Returns p1 \<Rightarrow>
                 (case createSubscription_call s subscription of
                    Throws err \<Rightarrow>
                      \<lparr>calls = [AccountCreate new_account_data, UserCreate new_user_data,
                                SendWelcomeEmail welcome, CreateSubscription subscription],
                       floating = [p1], returned = Rejected err\<rparr>
                  | Returns p2 \<Rightarrow>
                     (case phDefaultClient_capture_call s message of
                        Throws err \<Rightarrow>
                          \<lparr>calls = [AccountCreate new_account_data, UserCreate new_user_data,
                                    SendWelcomeEmail welcome, CreateSubscription subscription,
                                    Capture message],
                           floating = [p1, p2], returned = Rejected err\<rparr>
                      | Returns p3 \<Rightarrow>
                          \<lparr>calls = [AccountCreate new_account_data, UserCreate new_user_data,
                                    SendWelcomeEmail welcome, CreateSubscription subscription,
                                    Capture message],
                           floating = [p1, p2, p3],
                           returned = Fulfilled (Some newUser)\<rparr>)))))"

text \<open>The services of a world, as calls that always return.\<close>

definition returning :: "world \<Rightarrow> side_effects" where
  "returning w =
     \<lparr>sendWelcomeEmail_call = (\<lambda>i. Returns (sendWelcomeEmail w i)),
      createSubscription_call = (\<lambda>i. Returns (createSubscription w i)),
      phDefaultClient_capture_call = (\<lambda>m. Returns (phDefaultClient_capture w m))\<rparr>"

definition signup_passwordValidation :: "string \<Rightarrow> bool" where
  "signup_passwordValidation password = True"

definition signup_errors :: "(string \<times> string) list" where
  "signup_errors =
     [(''fieldMissing'', ''${field} is required''),
      (''usernameTaken'', ''Username `${username}` already in use'')]"

subsection \<open>The options given to DbAuthHandler\<close>

record cookie_attributes =
  HttpOnly :: bool
  Path :: string
  SameSite :: string
  Secure :: bool

record cookie_options =
  attributes :: cookie_attributes
  cookie_name :: string

text \<open>\<open>cookieName\<close> is imported from \<open>src/lib/auth\<close>: a parameter here.\<close>

definition cookie :: "env \<Rightarrow> string \<Rightarrow> cookie_options" where
  "cookie e cookieName =
     \<lparr>attributes =
        \<lparr>HttpOnly = True,
         Path = ''/'',
         SameSite = ''Strict'',
         Secure = (if NODE_ENV e \<noteq> Some ''development'' then True else False)\<rparr>,
      cookie_name = cookieName\<rparr>"

subsection \<open>Reading a run\<close>

text \<open>The payloads of the calls of one kind, in the order the calls were issued.\<close>

fun account_creates :: "call list \<Rightarrow> account_data list" where
  "account_creates [] = []"
| "account_creates (AccountCreate d # cs) = d # account_creates cs"
| "account_creates (c # cs) = account_creates cs"

fun user_creates :: "call list \<Rightarrow> user_data list" where
  "user_creates [] = []"
| "user_creates (UserCreate d # cs) = d # user_creates cs"
| "user_creates (c # cs) = user_creates cs"


fun subscriptions :: "call list \<Rightarrow> subscription_input list" where
  "subscriptions [] = []"
| "subscriptions (CreateSubscription i # cs) = i # subscriptions cs"
| "subscriptions (c # cs) = subscriptions cs"

fun captures :: "call list \<Rightarrow> capture_message list" where
  "captures [] = []"
| "captures (Capture m # cs) = m # captures cs"
| "captures (c # cs) = captures cs"


text \<open>
  The records a run created: for each create call of the run, in order, the record the
  database answered with, if it answered with one.
\<close>

fun account_records :: "world \<Rightarrow> call list \<Rightarrow> account list" where
  "account_records w [] = []"
| "account_records w (AccountCreate d # cs) =
     (case db_account_create w d of
        Fulfilled newAccount \<Rightarrow> newAccount # account_records w cs
      | Rejected err \<Rightarrow> account_records w cs)"
| "account_records w (c # cs) = account_records w cs"

fun user_records :: "world \<Rightarrow> call list \<Rightarrow> user list" where
  "user_records w [] = []"
| "user_records w (UserCreate d # cs) =
     (case db_user_create w d of
        Fulfilled (Some newUser) \<Rightarrow> newUser # user_records w cs
      | Fulfilled None \<Rightarrow> user_records w cs
      | Rejected err \<Rightarrow> user_records w cs)"
| "user_records w (c # cs) = user_records w cs"




subsection \<open>An example invocation\<close>

text \<open>
  A production environment, a database that accepts both records, a mail service that is
  down, and a signup that asks for a plan.
\<close>

definition example_env :: env where
  "example_env = \<lparr>NODE_ENV = Some ''production''\<rparr>"

definition example_account :: account where
  "example_account = \<lparr>apiKey = ''q7Zp0aXc'', account_id = IdNumber 41\<rparr>"

definition example_user :: user where
  "example_user =
     \<lparr>email = ''ada@example.com'', hashedPassword = ''5f4dcc3b'', salt = ''a1b2'',
      user_name = Some ''Ada'', user_type = ''OWNER'', accountId = IdNumber 41,
      user_id = IdNumber 7\<rparr>"

definition example_world :: world where
  "example_world =
     \<lparr>generateAPIKey = (\<lambda>n. take n ''q7Zp0aXc''),
      db_account_create = (\<lambda>d. Fulfilled \<lparr>apiKey = apiKey d, account_id = IdNumber 41\<rparr>),
      db_user_create =
        (\<lambda>d. Fulfilled (Some \<lparr>email = email d, hashedPassword = hashedPassword d,
                                 salt = salt d, user_name = user_name d,
                                 user_type = user_type d, accountId = accountId d,
                                 user_id = IdNumber 7\<rparr>)),
      sendWelcomeEmail = (\<lambda>i. Rejected ''connection refused''),
      createSubscription = (\<lambda>i. Fulfilled ()),
      phDefaultClient_capture = (\<lambda>m. Fulfilled ()),
      sendResetEmail = (\<lambda>i. Fulfilled ())\<rparr>"

definition example_args :: signup_args where
  "example_args =
     \<lparr>username = ''ada@example.com'', arg_hashedPassword = ''5f4dcc3b'', arg_salt = ''a1b2'',
      userAttributes = Some \<lparr>name = ''Ada'', plan = Some ''enterprise''\<rparr>\<rparr>"

text \<open>
  The same world with a database that refuses the account, with a database that creates
  the account and refuses the user, and services whose mailer throws when it is called.
\<close>

definition example_world_no_account :: world where
  "example_world_no_account =
     example_world\<lparr>db_account_create := (\<lambda>d. Rejected ''database unavailable'')\<rparr>"

definition example_world_no_user :: world where
  "example_world_no_user =
     example_world\<lparr>db_user_create := (\<lambda>d. Rejected ''unique constraint'')\<rparr>"



lemmas example_defs =
  example_env_def example_account_def example_user_def example_world_def example_args_def

section \<open>Properties\<close>

subsection \<open>The signup callback, branch by branch\<close>

lemma signup_handler_account_rejected:
  assumes "db_account_create w \<lparr>apiKey = generateAPIKey w 32\<rparr> = Rejected err"
  shows "signup_handler e w a =
           \<lparr>calls = [AccountCreate \<lparr>apiKey = generateAPIKey w 32\<rparr>], floating = [],
            returned = Rejected err\<rparr>"
  using assms by (simp add: signup_handler_def Let_def)

lemma signup_handler_user_rejected:
  assumes "db_account_create w \<lparr>apiKey = generateAPIKey w 32\<rparr> = Fulfilled newAccount"
    and "db_user_create w
           \<lparr>email = username a, hashedPassword = arg_hashedPassword a, salt = arg_salt a,
            user_name = map_option name (userAttributes a), user_type = ''OWNER'',
            accountId = account_id newAccount\<rparr> = Rejected err"
  shows "signup_handler e w a =
           \<lparr>calls =
              [AccountCreate \<lparr>apiKey = generateAPIKey w 32\<rparr>,
               UserCreate
                 \<lparr>email = username a, hashedPassword = arg_hashedPassword a, salt = arg_salt a,
                  user_name = map_option name (userAttributes a), user_type = ''OWNER'',
                  accountId = account_id newAccount\<rparr>],
            floating = [], returned = Rejected err\<rparr>"
  using assms by (simp add: signup_handler_def Let_def)

lemma signup_handler_user_falsy:
  assumes "db_account_create w \<lparr>apiKey = generateAPIKey w 32\<rparr> = Fulfilled newAccount"
    and "db_user_create w
           \<lparr>email = username a, hashedPassword = arg_hashedPassword a, salt = arg_salt a,
            user_name = map_option name (userAttributes a), user_type = ''OWNER'',
            accountId = account_id newAccount\<rparr> = Fulfilled None"
  shows "signup_handler e w a =
           \<lparr>calls =
              [AccountCreate \<lparr>apiKey = generateAPIKey w 32\<rparr>,
               UserCreate
                 \<lparr>email = username a, hashedPassword = arg_hashedPassword a, salt = arg_salt a,
                  user_name = map_option name (userAttributes a), user_type = ''OWNER'',
                  accountId = account_id newAccount\<rparr>],
            floating = [], returned = Fulfilled None\<rparr>"
  using assms by (simp add: signup_handler_def Let_def)



subsection \<open>Signup: the two records\<close>

text \<open>
  Claim C1, as the code has it. In every signup the callback first asks the database, once,
  for an account whose API key is the key that \<open>generateAPIKey(32)\<close> returns in this
  invocation. When the database creates that account, exactly one account record has been
  created, and the callback then asks, once, for a user whose email is the submitted
  username, whose hashedPassword and salt are the submitted values, whose type is the owner
  role (the literal \<open>'OWNER'\<close>) and whose accountId is the id of the account just created.
  When the database creates that user too, exactly one user record has been created.
  When the database refuses the account, the callback rejects and asks for no user.
\<close>

theorem signup_creates_account_then_user:
  "account_creates (calls (signup_handler e w a)) = [\<lparr>apiKey = generateAPIKey w 32\<rparr>] \<and>
   take 1 (calls (signup_handler e w a)) = [AccountCreate \<lparr>apiKey = generateAPIKey w 32\<rparr>] \<and>
   (db_account_create w \<lparr>apiKey = generateAPIKey w 32\<rparr> = Fulfilled newAccount \<longrightarrow>
      account_records w (calls (signup_handler e w a)) = [newAccount] \<and>
      take 2 (calls (signup_handler e w a)) =
        [AccountCreate \<lparr>apiKey = generateAPIKey w 32\<rparr>,
         UserCreate
           \<lparr>email = username a, hashedPassword = arg_hashedPassword a, salt = arg_salt a,
            user_name = map_option name (userAttributes a), user_type = ''OWNER'',
            accountId = account_id newAccount\<rparr>] \<and>
      user_creates (calls (signup_handler e w a)) =
        [\<lparr>email = username a, hashedPassword = arg_hashedPassword a, salt = arg_salt a,
          user_name = map_option name (userAttributes a), user_type = ''OWNER'',
          accountId = account_id newAccount\<rparr>] \<and>
      (db_user_create w
         \<lparr>email = username a, hashedPassword = arg_hashedPassword a, salt = arg_salt a,
          user_name = map_option name (userAttributes a), user_type = ''OWNER'',
          accountId = account_id newAccount\<rparr> = Fulfilled (Some newUser) \<longrightarrow>
       user_records w (calls (signup_handler e w a)) = [newUser])) \<and>
   (db_account_create w \<lparr>apiKey = generateAPIKey w 32\<rparr> = Rejected err \<longrightarrow>
      returned (signup_handler e w a) = Rejected err \<and>
      account_records w (calls (signup_handler e w a)) = [] \<and>
      user_creates (calls (signup_handler e w a)) = [])"
  by (simp add: signup_handler_def Let_def split: promise.split option.split)

theorem signup_creates_account_then_user_witness:
  "db_account_create example_world \<lparr>apiKey = generateAPIKey example_world 32\<rparr>
     = Fulfilled example_account \<and>
   db_user_create example_world
     \<lparr>email = username example_args, hashedPassword = arg_hashedPassword example_args,
      salt = arg_salt example_args,
      user_name = map_option name (userAttributes example_args), user_type = ''OWNER'',
      accountId = account_id example_account\<rparr> = Fulfilled (Some example_user) \<and>
   take 2 (calls (signup_handler example_env example_world example_args)) =
     [AccountCreate \<lparr>apiKey = ''q7Zp0aXc''\<rparr>,
      UserCreate
        \<lparr>email = ''ada@example.com'', hashedPassword = ''5f4dcc3b'', salt = ''a1b2'',
         user_name = Some ''Ada'', user_type = ''OWNER'', accountId = IdNumber 41\<rparr>] \<and>
   account_creates (calls (signup_handler example_env example_world example_args)) =
     [\<lparr>apiKey = ''q7Zp0aXc''\<rparr>] \<and>
   user_creates (calls (signup_handler example_env example_world example_args)) =
     [\<lparr>email = ''ada@example.com'', hashedPassword = ''5f4dcc3b'', salt = ''a1b2'',
       user_name = Some ''Ada'', user_type = ''OWNER'', accountId = IdNumber 41\<rparr>] \<and>
   account_records example_world (calls (signup_handler example_env example_world example_args))
     = [example_account] \<and>
   user_records example_world (calls (signup_handler example_env example_world example_args))
     = [example_user]"
proof -
  have h1: "db_account_create example_world \<lparr>apiKey = generateAPIKey example_world 32\<rparr>
              = Fulfilled example_account"
    by (simp add: example_defs)
  have h2: "db_user_create example_world
              \<lparr>email = username example_args, hashedPassword = arg_hashedPassword example_args,
               salt = arg_salt example_args,
               user_name = map_option name (userAttributes example_args), user_type = ''OWNER'',
               accountId = account_id example_account\<rparr> = Fulfilled (Some example_user)"
    by (simp add: example_defs)
  have "generateAPIKey example_world 32 = ''q7Zp0aXc''"
    and "username example_args = ''ada@example.com''"
    and "arg_hashedPassword example_args = ''5f4dcc3b''"
    and "arg_salt example_args = ''a1b2''"
    and "map_option name (userAttributes example_args) = Some ''Ada''"
    and "account_id example_account = IdNumber 41"
    by (simp_all add: example_defs)
  then show ?thesis
    using h1 h2
      signup_creates_account_then_user
        [of example_env example_world example_args example_account example_user]
    by simp
qed

text \<open>
  Claim C1 as written has every signup create one account record and one user record.
  With a database that refuses the account, the callback rejects: no account record
  exists and no user is asked for. With a database that creates the account and refuses
  the user, the callback rejects with one account record and no user record.
\<close>

theorem signup_without_records_when_database_refuses:
  "returned (signup_handler example_env example_world_no_account example_args)
     = Rejected ''database unavailable'' \<and>
   account_records example_world_no_account
       (calls (signup_handler example_env example_world_no_account example_args)) = [] \<and>
   user_creates (calls (signup_handler example_env example_world_no_account example_args)) = [] \<and>
   user_records example_world_no_account
       (calls (signup_handler example_env example_world_no_account example_args)) = [] \<and>
   returned (signup_handler example_env example_world_no_user example_args)
     = Rejected ''unique constraint'' \<and>
   account_records example_world_no_user
       (calls (signup_handler example_env example_world_no_user example_args))
     = [example_account] \<and>
   user_records example_world_no_user
       (calls (signup_handler example_env example_world_no_user example_args)) = []"
  by (simp add: signup_handler_def Let_def example_defs
      example_world_no_account_def example_world_no_user_def)

subsection \<open>Signup: the three side effects\<close>




subsection \<open>Signup: the outcomes of the side effects\<close>

text \<open>
  With services that always return, the callback with throwing services is the callback
  above.
\<close>

lemma signup_handler_throwing_returning:
  "signup_handler_throwing e w (returning w) a = signup_handler e w a"
  by (simp add: signup_handler_throwing_def signup_handler_def returning_def Let_def
      split: promise.split option.split)




subsection \<open>Signup: the plan attribute\<close>

text \<open>
  Claim C10. Two signups that differ only in \<open>userAttributes.plan\<close> run alike: the same
  calls with the same payloads, the same floating promises, the same result. The plan of
  the subscription and the plan of the analytics event are both the plan of the
  environment (when the run reaches the side effects at all), which is
  \<open>'Alpha-USD-Monthly'\<close> in development and \<open>'alpha-usd-monthly'\<close> otherwise.
\<close>

theorem signup_ignores_plan_attribute:
  "signup_handler e w (a\<lparr>userAttributes := Some (ua\<lparr>plan := p1\<rparr>)\<rparr>) =
     signup_handler e w (a\<lparr>userAttributes := Some (ua\<lparr>plan := p2\<rparr>)\<rparr>) \<and>
   (map subscription_type (subscriptions (calls (signup_handler e w a))) @
      map set_plan (captures (calls (signup_handler e w a))) = [] \<or>
    map subscription_type (subscriptions (calls (signup_handler e w a))) @
      map set_plan (captures (calls (signup_handler e w a))) = [userPlan e, userPlan e]) \<and>
   userPlan e =
     (if NODE_ENV e = Some ''development'' then ''Alpha-USD-Monthly'' else ''alpha-usd-monthly'')"
  by (simp add: signup_handler_def Let_def userPlan_def split: promise.split option.split)

subsection \<open>Signup: password validation\<close>

text \<open>
  Claim C6. The password validation callback returns true for every string, the empty
  string included.
\<close>

theorem signup_passwordValidation_accepts_every_string:
  "signup_passwordValidation password = True \<and> signup_passwordValidation [] = True"
  by (simp add: signup_passwordValidation_def)

subsection \<open>Forgot password\<close>


subsection \<open>Reset password\<close>

text \<open>
  Claim C5. The reset-password callback returns true for every user; the options allow a
  reused password, and still declare the error string for a reused one.
\<close>

theorem resetPassword_returns_true_and_allows_reuse:
  "resetPassword_handler u = True \<and>
   resetPassword_allowReusedPassword = True \<and>
   map_of resetPassword_errors ''reusedPassword'' = Some ''Must choose a new password''"
  by (simp add: resetPassword_handler_def resetPassword_allowReusedPassword_def
      resetPassword_errors_def)

subsection \<open>Login\<close>

text \<open>Claim C7. The login callback returns the user it is given, whatever the user.\<close>

theorem login_handler_returns_its_user:
  "login_handler u = u"
  by (simp add: login_handler_def)

subsection \<open>Cookie and expiry\<close>

text \<open>
  Claim C8. The cookie attributes are HttpOnly true, Path \<open>'/'\<close> and SameSite \<open>'Strict'\<close>
  in every environment, and Secure is true exactly when \<open>NODE_ENV\<close> is not
  \<open>'development'\<close>.
\<close>

theorem cookie_attributes_by_environment:
  "HttpOnly (attributes (cookie e cookieName)) = True \<and>
   Path (attributes (cookie e cookieName)) = ''/'' \<and>
   SameSite (attributes (cookie e cookieName)) = ''Strict'' \<and>
   Secure (attributes (cookie e cookieName)) = (NODE_ENV e \<noteq> Some ''development'') \<and>
   Secure (attributes (cookie (e\<lparr>NODE_ENV := Some ''development''\<rparr>) cookieName)) = False"
  by (simp add: cookie_def)

text \<open>
  Claim C9. A reset token is valid for 86400 seconds, which is 24 hours of 3600 seconds;
  a login lasts 315360000 seconds, which is 10 years of 365 days of 86400 seconds.
\<close>

theorem expires_values:
  "forgotPassword_expires = 86400 \<and>
   forgotPassword_expires = 24 * 3600 \<and>
   login_expires = 315360000 \<and>
   login_expires = 10 * (365 * 86400)"
  by (simp add: forgotPassword_expires_def login_expires_def)

end
